theory Spec2Isabelle
  imports Complex_Main
begin

section \<open>JavaScript numbers\<close>

text \<open>
  The services compute with JavaScript \<open>number\<close>s. The coordinates that arrive in a
  parsed reply or from the region selector are finite; they are modelled as exact
  rationals (rounding of doubles and the sign of zero are not modelled). A division can
  leave the finite numbers: \<open>0 / 0\<close> is \<open>NaN\<close> and \<open>a / 0\<close> is an infinity. The
  results of the percentage computation therefore live in \<open>jsnum\<close>, and
  \<open>Math.min\<close> and \<open>Math.max\<close> follow ECMAScript: \<open>NaN\<close> if an argument is \<open>NaN\<close>.
\<close>

datatype jsnum = Num rat | PosInf | NegInf | NaN

definition js_div :: "rat \<Rightarrow> rat \<Rightarrow> jsnum" where
  "js_div a b =
     (if b \<noteq> 0 then Num (a / b)
      else if a = 0 then NaN
      else if 0 < a then PosInf else NegInf)"

fun js_mul :: "jsnum \<Rightarrow> rat \<Rightarrow> jsnum" where
  "js_mul (Num a) c = Num (a * c)"
| "js_mul PosInf c = (if 0 < c then PosInf else if c < 0 then NegInf else NaN)"
| "js_mul NegInf c = (if 0 < c then NegInf else if c < 0 then PosInf else NaN)"
| "js_mul NaN c = NaN"

fun Math_min :: "jsnum \<Rightarrow> jsnum \<Rightarrow> jsnum" where
  "Math_min NaN b = NaN"
| "Math_min a NaN = NaN"
| "Math_min NegInf b = NegInf"
| "Math_min a NegInf = NegInf"
| "Math_min PosInf b = b"
| "Math_min a PosInf = a"
| "Math_min (Num a) (Num b) = Num (min a b)"

fun Math_max :: "jsnum \<Rightarrow> jsnum \<Rightarrow> jsnum" where
  "Math_max NaN b = NaN"
| "Math_max a NaN = NaN"
| "Math_max PosInf b = PosInf"
| "Math_max a PosInf = PosInf"
| "Math_max NegInf b = b"
| "Math_max a NegInf = a"
| "Math_max (Num a) (Num b) = Num (max a b)"

text \<open>A number that is a percentage: finite and between 0 and 100, both included.\<close>

fun in_percent_range :: "jsnum \<Rightarrow> bool" where
  "in_percent_range (Num r) = (0 \<le> r \<and> r \<le> 100)"
| "in_percent_range PosInf = False"
| "in_percent_range NegInf = False"
| "in_percent_range NaN = False"

section \<open>Data model (types.ts and the services' raw reply types)\<close>

text \<open>
  \<open>MinimapBounds\<close> is also the shape of \<open>minimapLocation\<close> and of every
  \<open>boundingBox\<close>: the services assign one to the other.
\<close>

record MinimapBounds =
  ymin :: rat
  xmin :: rat
  ymax :: rat
  xmax :: rat

record RawAgentDetection =
  team :: string
  agentGuess :: "string option"
  boundingBox :: MinimapBounds

record RawAnalysisResponse =
  mapName :: string
  minimapLocation :: "MinimapBounds option"
  detectedIcons :: "RawAgentDetection list"
  summary :: string

text \<open>The \<open>{x, y}\<close> objects of the region selector, on the 0-1000 scale.\<close>

record MousePos =
  x :: rat
  y :: rat

record PlayerPosition =
  team :: string
  agentGuess :: "string option"
  x :: jsnum
  y :: jsnum

record AnalysisResult =
  mapName :: string
  minimapBounds :: MinimapBounds
  players :: "PlayerPosition list"
  summary :: string

section \<open>The Gemini service: post-processing of the parsed reply\<close>

text \<open>
  \<open>analyzeValorantScreenshot\<close> (the variant that takes \<open>manualBounds\<close>), from
  \<open>const rawData = JSON.parse(...)\<close> to the returned object. The local constants of
  the source are functions of what they close over; the callback handed to \<open>.map\<close> is
  \<open>iconToPlayer\<close>, and \<open>null\<close> is \<open>None\<close>.
\<close>

definition iconCenterY :: "RawAgentDetection \<Rightarrow> rat" where
  "iconCenterY icon = (ymin (boundingBox icon) + ymax (boundingBox icon)) / 2"

definition iconCenterX :: "RawAgentDetection \<Rightarrow> rat" where
  "iconCenterX icon = (xmin (boundingBox icon) + xmax (boundingBox icon)) / 2"

definition isInside :: "MinimapBounds \<Rightarrow> RawAgentDetection \<Rightarrow> bool" where
  "isInside mapBox icon =
     (iconCenterX icon \<ge> xmin mapBox \<and>
      iconCenterX icon \<le> xmax mapBox \<and>
      iconCenterY icon \<ge> ymin mapBox \<and>
      iconCenterY icon \<le> ymax mapBox)"

definition relX :: "MinimapBounds \<Rightarrow> rat \<Rightarrow> RawAgentDetection \<Rightarrow> jsnum" where
  "relX mapBox mapWidth icon = js_mul (js_div (iconCenterX icon - xmin mapBox) mapWidth) 100"

definition relY :: "MinimapBounds \<Rightarrow> rat \<Rightarrow> RawAgentDetection \<Rightarrow> jsnum" where
  "relY mapBox mapHeight icon = js_mul (js_div (iconCenterY icon - ymin mapBox) mapHeight) 100"

definition clamp :: "jsnum \<Rightarrow> jsnum" where
  "clamp v = Math_max (Num 0) (Math_min (Num 100) v)"

definition iconToPlayer ::
  "MinimapBounds \<Rightarrow> rat \<Rightarrow> rat \<Rightarrow> RawAgentDetection \<Rightarrow> PlayerPosition option" where
  "iconToPlayer mapBox mapWidth mapHeight icon =
     (if \<not> isInside mapBox icon then None
      else Some \<lparr>
        PlayerPosition.team = RawAgentDetection.team icon,
        agentGuess = RawAgentDetection.agentGuess icon,
        x = clamp (relX mapBox mapWidth icon),
        y = clamp (relY mapBox mapHeight icon)\<rparr>)"

definition fallbackBox :: MinimapBounds where
  "fallbackBox = \<lparr>ymin = 0, xmin = 0, ymax = 200, xmax = 200\<rparr>"

definition analyzeValorantScreenshot_post ::
  "RawAnalysisResponse \<Rightarrow> MinimapBounds option \<Rightarrow> AnalysisResult" where
  "analyzeValorantScreenshot_post rawData manualBounds =
     (let mapBox =
            (case manualBounds of
               Some b \<Rightarrow> b
             | None \<Rightarrow>
                 (case minimapLocation rawData of
                    Some loc \<Rightarrow> loc
                  | None \<Rightarrow> fallbackBox));
          mapWidth = xmax mapBox - xmin mapBox;
          mapHeight = ymax mapBox - ymin mapBox;
          players =
            map the
              (filter (\<lambda>p. p \<noteq> None)
                 (map (iconToPlayer mapBox mapWidth mapHeight) (detectedIcons rawData)))
      in \<lparr>
        AnalysisResult.mapName = RawAnalysisResponse.mapName rawData,
        minimapBounds = mapBox,
        players = players,
        summary = RawAnalysisResponse.summary rawData\<rparr>)"

section \<open>The OpenAI service: post-processing of the parsed reply\<close>

text \<open>
  \<open>analyzeWithOpenAI\<close>, from \<open>const rawData = JSON.parse(content)\<close> to the returned
  object, written as the file has it: one expression with its own copy of the callback.
\<close>

definition analyzeWithOpenAI_post ::
  "RawAnalysisResponse \<Rightarrow> MinimapBounds option \<Rightarrow> AnalysisResult" where
  "analyzeWithOpenAI_post rawData manualBounds =
     (let mapBox =
            (case manualBounds of
               Some b \<Rightarrow> b
             | None \<Rightarrow>
                 (case minimapLocation rawData of
                    Some loc \<Rightarrow> loc
                  | None \<Rightarrow> \<lparr>ymin = 0, xmin = 0, ymax = 200, xmax = 200\<rparr>));
          mapWidth = xmax mapBox - xmin mapBox;
          mapHeight = ymax mapBox - ymin mapBox;
          players =
            map the
              (filter (\<lambda>p. p \<noteq> None)
                 (map (\<lambda>icon.
                    (let cy = (ymin (boundingBox icon) + ymax (boundingBox icon)) / 2;
                         cx = (xmin (boundingBox icon) + xmax (boundingBox icon)) / 2;
                         inside =
                           (cx \<ge> xmin mapBox \<and> cx \<le> xmax mapBox \<and>
                            cy \<ge> ymin mapBox \<and> cy \<le> ymax mapBox)
                     in if \<not> inside then None
                        else
                          (let rx = js_mul (js_div (cx - xmin mapBox) mapWidth) 100;
                               ry = js_mul (js_div (cy - ymin mapBox) mapHeight) 100;
                               rx' = Math_max (Num 0) (Math_min (Num 100) rx);
                               ry' = Math_max (Num 0) (Math_min (Num 100) ry)
                           in Some \<lparr>
                                PlayerPosition.team = RawAgentDetection.team icon,
                                agentGuess = RawAgentDetection.agentGuess icon,
                                x = rx',
                                y = ry'\<rparr>)))
                  (detectedIcons rawData)))
      in \<lparr>
        AnalysisResult.mapName = RawAnalysisResponse.mapName rawData,
        minimapBounds = mapBox,
        players = players,
        summary = RawAnalysisResponse.summary rawData\<rparr>)"

section \<open>Derived views of the post-processing\<close>

text \<open>The rectangle the \<open>if\<close>/\<open>else if\<close>/\<open>else\<close> chain chooses.\<close>

definition resolveBounds :: "MinimapBounds option \<Rightarrow> MinimapBounds option \<Rightarrow> MinimapBounds" where
  "resolveBounds manualBounds loc =
     (case manualBounds of
        Some b \<Rightarrow> b
      | None \<Rightarrow> (case loc of Some l \<Rightarrow> l | None \<Rightarrow> fallbackBox))"

text \<open>The position record built for a detection that is kept.\<close>

definition placeIcon :: "MinimapBounds \<Rightarrow> RawAgentDetection \<Rightarrow> PlayerPosition" where
  "placeIcon mapBox icon =
     \<lparr>PlayerPosition.team = RawAgentDetection.team icon,
      agentGuess = RawAgentDetection.agentGuess icon,
      x = clamp (relX mapBox (xmax mapBox - xmin mapBox) icon),
      y = clamp (relY mapBox (ymax mapBox - ymin mapBox) icon)\<rparr>"

definition normalizeIcons :: "MinimapBounds \<Rightarrow> RawAgentDetection list \<Rightarrow> PlayerPosition list" where
  "normalizeIcons mapBox icons = map (placeIcon mapBox) (filter (isInside mapBox) icons)"

section \<open>The earlier Gemini variant without manual bounds\<close>

text \<open>
  The repository also keeps an earlier \<open>analyzeValorantScreenshot\<close> that takes the
  image only and declares \<open>minimapLocation\<close> as required: \<open>mapBox\<close> is the
  model's rectangle, and reading \<open>mapBox.xmax\<close> throws when the reply has none. Its
  callback is the same text as \<open>iconToPlayer\<close>.
\<close>

datatype error =
  TypeError | MissingApiKey | ApiError string | NoContent | NoTextResponse | SyntaxError
  | CallRejected

definition analyzeValorantScreenshot_earlier_post ::
  "RawAnalysisResponse \<Rightarrow> error + AnalysisResult" where
  "analyzeValorantScreenshot_earlier_post rawData =
     (case minimapLocation rawData of
        None \<Rightarrow> Inl TypeError
      | Some mapBox \<Rightarrow>
          (let mapWidth = xmax mapBox - xmin mapBox;
               mapHeight = ymax mapBox - ymin mapBox;
               players =
                 map the
                   (filter (\<lambda>p. p \<noteq> None)
                      (map (iconToPlayer mapBox mapWidth mapHeight) (detectedIcons rawData)))
           in Inr \<lparr>
                AnalysisResult.mapName = RawAnalysisResponse.mapName rawData,
                minimapBounds = mapBox,
                players = players,
                summary = RawAnalysisResponse.summary rawData\<rparr>))"

section \<open>The region selector (components/MinimapSelector.tsx)\<close>

text \<open>
  The component's four state variables, and each handler as one transition on them.
  A handler's argument \<open>pos\<close> is what \<open>getMousePos\<close> returned for the event.
\<close>

record SelectorState =
  isDragging :: bool
  startPos :: "MousePos option"
  currentPos :: "MousePos option"
  selection :: "MinimapBounds option"

definition initialState :: SelectorState where
  "initialState = \<lparr>isDragging = False, startPos = None, currentPos = None, selection = None\<rparr>"

definition defaultSelection :: MinimapBounds where
  "defaultSelection = \<lparr>ymin = 0, xmin = 0, ymax = 250, xmax = 250\<rparr>"

text \<open>The \<open>useEffect\<close> that suggests the top-left quarter when nothing is selected.\<close>

definition suggestDefault :: "SelectorState \<Rightarrow> SelectorState" where
  "suggestDefault s =
     (if selection s = None then s\<lparr>selection := Some defaultSelection\<rparr> else s)"

definition handleMouseDown :: "MousePos \<Rightarrow> SelectorState \<Rightarrow> SelectorState" where
  "handleMouseDown pos s =
     s\<lparr>startPos := Some pos, currentPos := Some pos, isDragging := True, selection := None\<rparr>"

definition handleMouseMove :: "MousePos \<Rightarrow> SelectorState \<Rightarrow> SelectorState" where
  "handleMouseMove pos s =
     (if \<not> isDragging s \<or> startPos s = None then s else s\<lparr>currentPos := Some pos\<rparr>)"

definition handleMouseUp :: "SelectorState \<Rightarrow> SelectorState" where
  "handleMouseUp s =
     (case (isDragging s, startPos s, currentPos s) of
        (True, Some sp, Some cp) \<Rightarrow>
          (let newSelection =
                 \<lparr>ymin = min (MousePos.y sp) (MousePos.y cp),
                  xmin = min (MousePos.x sp) (MousePos.x cp),
                  ymax = max (MousePos.y sp) (MousePos.y cp),
                  xmax = max (MousePos.x sp) (MousePos.x cp)\<rparr>;
               s' =
                 (if xmax newSelection - xmin newSelection > 20 \<and>
                     ymax newSelection - ymin newSelection > 20
                  then s\<lparr>selection := Some newSelection\<rparr>
                  else s)
           in s'\<lparr>isDragging := False, startPos := None, currentPos := None\<rparr>)
      | _ \<Rightarrow> s)"

text \<open>
  The Confirm button: \<open>selection && onConfirm(selection)\<close>. The value is the rectangle
  handed to \<open>onConfirm\<close>, \<open>None\<close> when the click does nothing.
\<close>

definition confirmClick :: "SelectorState \<Rightarrow> MinimapBounds option" where
  "confirmClick s = selection s"

datatype SelectorEvent =
  Mounted | MouseDown MousePos | MouseMove MousePos | MouseUp | MouseLeave

fun handleEvent :: "SelectorState \<Rightarrow> SelectorEvent \<Rightarrow> SelectorState" where
  "handleEvent s Mounted = suggestDefault s"
| "handleEvent s (MouseDown pos) = handleMouseDown pos s"
| "handleEvent s (MouseMove pos) = handleMouseMove pos s"
| "handleEvent s MouseUp = handleMouseUp s"
| "handleEvent s MouseLeave = handleMouseUp s"

definition runSelector :: "SelectorEvent list \<Rightarrow> SelectorState" where
  "runSelector events = foldl handleEvent initialState events"

text \<open>What the selector lets through: the suggestion, or a drag wider and taller than 20.\<close>

definition confirmable :: "MinimapBounds \<Rightarrow> bool" where
  "confirmable b =
     (b = defaultSelection \<or> (xmax b - xmin b > 20 \<and> ymax b - ymin b > 20))"

definition selection_ok :: "SelectorState \<Rightarrow> bool" where
  "selection_ok s = (case selection s of None \<Rightarrow> True | Some b \<Rightarrow> confirmable b)"

section \<open>The schema-driven Gemini service (services/geminiService.ts)\<close>

text \<open>
  This variant asks the model for finished percentages and declares the result type as
  the reply schema; it takes the image only. Its handling of the reply is
  \<open>return JSON.parse(response.text) as AnalysisResult\<close>: the parsed value is the
  result. To put one reply before this service and before the OpenAI service, the
  parsed reply is a JSON value, and each \<open>as T\<close> reads the value at the interface
  \<open>T\<close> (\<open>None\<close> when the value does not have the fields the interface declares).
  A later duplicate key wins, as in \<open>JSON.parse\<close>.
\<close>

datatype json = JNull | JBool bool | JNum rat | JStr string | JArr "json list"
  | JObj "(string \<times> json) list"

fun field :: "string \<Rightarrow> json \<Rightarrow> json option" where
  "field k (JObj kvs) = map_of (rev kvs) k"
| "field k v = None"

fun asNumber :: "json \<Rightarrow> rat option" where
  "asNumber (JNum r) = Some r"
| "asNumber v = None"

fun asString :: "json \<Rightarrow> string option" where
  "asString (JStr s) = Some s"
| "asString v = None"

fun asArray :: "(json \<Rightarrow> 'a option) \<Rightarrow> json \<Rightarrow> 'a list option" where
  "asArray f (JArr vs) = those (map f vs)"
| "asArray f v = None"

text \<open>
  A field declared with \<open>?\<close>: absent, or present with the declared type. The cast
  checks nothing, and the code tests such a field for truthiness only
  (\<open>else if (rawData.minimapLocation)\<close>), so a field that is \<open>null\<close> counts as
  absent.
\<close>

fun optionalField :: "(json \<Rightarrow> 'a option) \<Rightarrow> json option \<Rightarrow> 'a option option" where
  "optionalField f None = Some None"
| "optionalField f (Some JNull) = Some None"
| "optionalField f (Some v) = map_option Some (f v)"

definition asBounds :: "json \<Rightarrow> MinimapBounds option" where
  "asBounds v =
     (case (Option.bind (field ''ymin'' v) asNumber, Option.bind (field ''xmin'' v) asNumber,
            Option.bind (field ''ymax'' v) asNumber, Option.bind (field ''xmax'' v) asNumber) of
        (Some a, Some b, Some c, Some d) \<Rightarrow> Some \<lparr>ymin = a, xmin = b, ymax = c, xmax = d\<rparr>
      | _ \<Rightarrow> None)"

definition asRawAgentDetection :: "json \<Rightarrow> RawAgentDetection option" where
  "asRawAgentDetection v =
     (case (Option.bind (field ''team'' v) asString,
            optionalField asString (field ''agentGuess'' v),
            Option.bind (field ''boundingBox'' v) asBounds) of
        (Some t, Some g, Some b) \<Rightarrow>
          Some \<lparr>RawAgentDetection.team = t, agentGuess = g, boundingBox = b\<rparr>
      | _ \<Rightarrow> None)"

definition asRawAnalysisResponse :: "json \<Rightarrow> RawAnalysisResponse option" where
  "asRawAnalysisResponse v =
     (case (Option.bind (field ''mapName'' v) asString,
            optionalField asBounds (field ''minimapLocation'' v),
            Option.bind (field ''detectedIcons'' v) (asArray asRawAgentDetection),
            Option.bind (field ''summary'' v) asString) of
        (Some m, Some loc, Some icons, Some s) \<Rightarrow>
          Some \<lparr>RawAnalysisResponse.mapName = m, minimapLocation = loc,
                detectedIcons = icons, summary = s\<rparr>
      | _ \<Rightarrow> None)"

definition asPlayerPosition :: "json \<Rightarrow> PlayerPosition option" where
  "asPlayerPosition v =
     (case (Option.bind (field ''team'' v) asString,
            optionalField asString (field ''agentGuess'' v),
            Option.bind (field ''x'' v) asNumber,
            Option.bind (field ''y'' v) asNumber) of
        (Some t, Some g, Some a, Some b) \<Rightarrow>
          Some \<lparr>PlayerPosition.team = t, agentGuess = g, x = Num a, y = Num b\<rparr>
      | _ \<Rightarrow> None)"

definition asAnalysisResult :: "json \<Rightarrow> AnalysisResult option" where
  "asAnalysisResult v =
     (case (Option.bind (field ''mapName'' v) asString,
            Option.bind (field ''minimapBounds'' v) asBounds,
            Option.bind (field ''players'' v) (asArray asPlayerPosition),
            Option.bind (field ''summary'' v) asString) of
        (Some m, Some b, Some ps, Some s) \<Rightarrow>
          Some \<lparr>AnalysisResult.mapName = m, minimapBounds = b, players = ps, summary = s\<rparr>
      | _ \<Rightarrow> None)"

text \<open>The schema-driven service: the parsed reply, read as an \<open>AnalysisResult\<close>.\<close>

definition analyzeValorantScreenshot_direct :: "json \<Rightarrow> AnalysisResult option" where
  "analyzeValorantScreenshot_direct reply = asAnalysisResult reply"

text \<open>
  The OpenAI service on a parsed reply: \<open>JSON.parse(content) as RawAnalysisResponse\<close>,
  then the post-processing.
\<close>

definition analyzeWithOpenAI_reply :: "json \<Rightarrow> MinimapBounds option \<Rightarrow> AnalysisResult option" where
  "analyzeWithOpenAI_reply reply manualBounds =
     map_option (\<lambda>rawData. analyzeWithOpenAI_post rawData manualBounds)
       (asRawAnalysisResponse reply)"

section \<open>The exported services, with what surrounds them\<close>








section \<open>The inclusion test in the words of the specification\<close>

text \<open>A point \<open>(cx, cy)\<close> lies in a rectangle, its edges included.\<close>

definition center_within :: "MinimapBounds \<Rightarrow> rat \<Rightarrow> rat \<Rightarrow> bool" where
  "center_within mapBox cx cy =
     (xmin mapBox \<le> cx \<and> cx \<le> xmax mapBox \<and> ymin mapBox \<le> cy \<and> cy \<le> ymax mapBox)"

section \<open>Sample replies\<close>

text \<open>The end-to-end scenario of the specification: one icon inside, one far outside.\<close>

definition havenReply :: RawAnalysisResponse where
  "havenReply =
     \<lparr>RawAnalysisResponse.mapName = ''Haven'',
      minimapLocation = Some \<lparr>ymin = 0, xmin = 0, ymax = 200, xmax = 200\<rparr>,
      detectedIcons =
        [\<lparr>RawAgentDetection.team = ''Red'', agentGuess = None,
          boundingBox = \<lparr>ymin = 50, xmin = 50, ymax = 70, xmax = 70\<rparr>\<rparr>,
         \<lparr>RawAgentDetection.team = ''Blue'', agentGuess = Some ''Jett'',
          boundingBox = \<lparr>ymin = 900, xmin = 900, ymax = 920, xmax = 920\<rparr>\<rparr>],
      summary = ''s''\<rparr>"

text \<open>The same reply without a \<open>minimapLocation\<close>.\<close>

definition havenReplyNoLocation :: RawAnalysisResponse where
  "havenReplyNoLocation = havenReply\<lparr>minimapLocation := None\<rparr>"

text \<open>
  A reply whose \<open>minimapLocation\<close> has \<open>xmin = xmax = 100\<close>, and one icon centred at
  \<open>(100, 50)\<close>, on that line.
\<close>

definition zeroWidthReply :: RawAnalysisResponse where
  "zeroWidthReply =
     \<lparr>RawAnalysisResponse.mapName = ''Haven'',
      minimapLocation = Some \<lparr>ymin = 0, xmin = 100, ymax = 200, xmax = 100\<rparr>,
      detectedIcons =
        [\<lparr>RawAgentDetection.team = ''Red'', agentGuess = None,
          boundingBox = \<lparr>ymin = 40, xmin = 90, ymax = 60, xmax = 110\<rparr>\<rparr>],
      summary = ''s''\<rparr>"

text \<open>
  A reply that carries the fields of both reply shapes: the model's own percentages
  (\<open>x = 150\<close>) next to the icon's bounding box.
\<close>

definition box200 :: json where
  "box200 =
     JObj [(''ymin'', JNum 0), (''xmin'', JNum 0), (''ymax'', JNum 200), (''xmax'', JNum 200)]"

definition bothShapesReply :: json where
  "bothShapesReply =
     JObj [(''mapName'', JStr ''Haven''),
           (''minimapLocation'', box200),
           (''detectedIcons'',
              JArr [JObj [(''team'', JStr ''Red''),
                          (''boundingBox'',
                             JObj [(''ymin'', JNum 50), (''xmin'', JNum 50),
                                   (''ymax'', JNum 70), (''xmax'', JNum 70)])]]),
           (''minimapBounds'', box200),
           (''players'',
              JArr [JObj [(''team'', JStr ''Red''), (''x'', JNum 150), (''y'', JNum 30)]]),
           (''summary'', JStr ''s'')]"

section \<open>Basic lemmas\<close>

lemma map_the_filter_map:
  "map the (filter (\<lambda>p. p \<noteq> None) (map f xs)) = map (\<lambda>a. the (f a)) (filter (\<lambda>a. f a \<noteq> None) xs)"
  by (induction xs) simp_all

lemma map_filter_concat:
  "map f (filter P xs) = concat (map (\<lambda>a. if P a then [f a] else []) xs)"
  by (induction xs) simp_all

lemma iconToPlayer_None_iff:
  "iconToPlayer mapBox w h icon \<noteq> None \<longleftrightarrow> isInside mapBox icon"
  by (simp add: iconToPlayer_def)

lemma iconToPlayer_inside:
  "isInside mapBox icon \<Longrightarrow>
   the (iconToPlayer mapBox (xmax mapBox - xmin mapBox) (ymax mapBox - ymin mapBox) icon) =
   placeIcon mapBox icon"
  by (simp add: iconToPlayer_def placeIcon_def)

lemma isInside_center_within:
  "isInside mapBox icon =
     center_within mapBox
       ((xmin (boundingBox icon) + xmax (boundingBox icon)) / 2)
       ((ymin (boundingBox icon) + ymax (boundingBox icon)) / 2)"
  by (auto simp add: isInside_def center_within_def iconCenterX_def iconCenterY_def)

lemma players_pipeline:
  "map the (filter (\<lambda>p. p \<noteq> None)
     (map (iconToPlayer mapBox (xmax mapBox - xmin mapBox) (ymax mapBox - ymin mapBox)) icons))
   = normalizeIcons mapBox icons"
  unfolding map_the_filter_map normalizeIcons_def iconToPlayer_None_iff
  by (rule map_cong) (simp_all add: iconToPlayer_inside)

text \<open>The Gemini post-processing is bounds resolution followed by filtering and placing.\<close>

lemma gemini_post_unfold:
  "analyzeValorantScreenshot_post rawData manualBounds =
     \<lparr>AnalysisResult.mapName = RawAnalysisResponse.mapName rawData,
      minimapBounds = resolveBounds manualBounds (minimapLocation rawData),
      players = normalizeIcons (resolveBounds manualBounds (minimapLocation rawData))
                  (detectedIcons rawData),
      summary = RawAnalysisResponse.summary rawData\<rparr>"
  unfolding analyzeValorantScreenshot_post_def Let_def resolveBounds_def [symmetric]
    players_pipeline
  by (rule refl)

lemma gemini_bounds:
  "minimapBounds (analyzeValorantScreenshot_post rawData manualBounds) =
     resolveBounds manualBounds (minimapLocation rawData)"
  by (simp add: gemini_post_unfold)

lemma gemini_players:
  "players (analyzeValorantScreenshot_post rawData manualBounds) =
     normalizeIcons (resolveBounds manualBounds (minimapLocation rawData)) (detectedIcons rawData)"
  by (simp add: gemini_post_unfold)

text \<open>The callback written out in the OpenAI service is the Gemini service's callback.\<close>

lemma openai_callback_eq:
  "(\<lambda>icon.
      (let cy = (ymin (boundingBox icon) + ymax (boundingBox icon)) / 2;
           cx = (xmin (boundingBox icon) + xmax (boundingBox icon)) / 2;
           inside =
             (cx \<ge> xmin mapBox \<and> cx \<le> xmax mapBox \<and>
              cy \<ge> ymin mapBox \<and> cy \<le> ymax mapBox)
       in if \<not> inside then None
          else
            (let rx = js_mul (js_div (cx - xmin mapBox) mapWidth) 100;
                 ry = js_mul (js_div (cy - ymin mapBox) mapHeight) 100;
                 rx' = Math_max (Num 0) (Math_min (Num 100) rx);
                 ry' = Math_max (Num 0) (Math_min (Num 100) ry)
             in Some \<lparr>
                  PlayerPosition.team = RawAgentDetection.team icon,
                  agentGuess = RawAgentDetection.agentGuess icon,
                  x = rx',
                  y = ry'\<rparr>)))
   = iconToPlayer mapBox mapWidth mapHeight"
  by (rule ext)
     (simp add: iconToPlayer_def isInside_def iconCenterX_def iconCenterY_def
        relX_def relY_def clamp_def Let_def)

lemma openai_eq_gemini:
  "analyzeWithOpenAI_post rawData manualBounds = analyzeValorantScreenshot_post rawData manualBounds"
  unfolding analyzeWithOpenAI_post_def analyzeValorantScreenshot_post_def openai_callback_eq
    fallbackBox_def
  by (rule refl)

text \<open>
  Where the reply carries a \<open>minimapLocation\<close>, the earlier Gemini variant returns what
  the current one returns without manual bounds.
\<close>

lemma earlier_variant_agrees:
  "minimapLocation rawData = Some loc \<Longrightarrow>
   analyzeValorantScreenshot_earlier_post rawData = Inr (analyzeValorantScreenshot_post rawData None)"
  by (simp add: analyzeValorantScreenshot_earlier_post_def analyzeValorantScreenshot_post_def)

lemma placeIcon_team: "PlayerPosition.team (placeIcon mapBox icon) = RawAgentDetection.team icon"
  by (simp add: placeIcon_def)

lemma placeIcon_agentGuess:
  "PlayerPosition.agentGuess (placeIcon mapBox icon) = RawAgentDetection.agentGuess icon"
  by (simp add: placeIcon_def)

subsection \<open>Arithmetic of the percentages\<close>

lemma ratio_in_range:
  fixes a w :: rat
  assumes "0 < w" "0 \<le> a" "a \<le> w"
  shows "0 \<le> a / w * 100 \<and> a / w * 100 \<le> 100"
  using assms by (simp add: field_simps)

lemma clamp_Num: "0 \<le> r \<Longrightarrow> r \<le> 100 \<Longrightarrow> clamp (Num r) = Num r"
  by (simp add: clamp_def)

lemma relX_nondegenerate:
  assumes "xmin mapBox < xmax mapBox"
  shows "relX mapBox (xmax mapBox - xmin mapBox) icon =
           Num ((iconCenterX icon - xmin mapBox) / (xmax mapBox - xmin mapBox) * 100)"
  using assms by (simp add: relX_def js_div_def)

lemma relY_nondegenerate:
  assumes "ymin mapBox < ymax mapBox"
  shows "relY mapBox (ymax mapBox - ymin mapBox) icon =
           Num ((iconCenterY icon - ymin mapBox) / (ymax mapBox - ymin mapBox) * 100)"
  using assms by (simp add: relY_def js_div_def)

text \<open>Whatever the clamp receives that is a finite number, it returns a percentage.\<close>

lemma clamp_finite_in_range: "in_percent_range (clamp (Num r))"
  by (simp add: clamp_def)

lemma clamp_NaN: "clamp NaN = NaN"
  by (simp add: clamp_def)

text \<open>
  For a rectangle of positive width and height every kept detection is placed at
  percentages between 0 and 100.
\<close>

lemma kept_positions_in_range:
  assumes "xmin mapBox < xmax mapBox" and "ymin mapBox < ymax mapBox"
  shows "in_percent_range (PlayerPosition.x (placeIcon mapBox icon)) \<and>
         in_percent_range (PlayerPosition.y (placeIcon mapBox icon))"
  by (simp add: placeIcon_def relX_nondegenerate [OF assms(1)] relY_nondegenerate [OF assms(2)]
        clamp_finite_in_range)

subsection \<open>The sample replies, evaluated\<close>



lemma bothShapes_direct:
  "analyzeValorantScreenshot_direct bothShapesReply =
     Some \<lparr>AnalysisResult.mapName = ''Haven'',
           minimapBounds = \<lparr>ymin = 0, xmin = 0, ymax = 200, xmax = 200\<rparr>,
           players = [\<lparr>PlayerPosition.team = ''Red'', agentGuess = None, x = Num 150, y = Num 30\<rparr>],
           summary = ''s''\<rparr>"
  by (simp add: analyzeValorantScreenshot_direct_def asAnalysisResult_def bothShapesReply_def
        box200_def asBounds_def asPlayerPosition_def)

lemma bothShapes_raw:
  "asRawAnalysisResponse bothShapesReply =
     Some \<lparr>RawAnalysisResponse.mapName = ''Haven'',
      minimapLocation = Some \<lparr>ymin = 0, xmin = 0, ymax = 200, xmax = 200\<rparr>,
      detectedIcons =
        [\<lparr>RawAgentDetection.team = ''Red'', agentGuess = None,
          boundingBox = \<lparr>ymin = 50, xmin = 50, ymax = 70, xmax = 70\<rparr>\<rparr>],
      summary = ''s''\<rparr>"
  by (simp add: asRawAnalysisResponse_def bothShapesReply_def
        box200_def asBounds_def asRawAgentDetection_def)

text \<open>A reply with \<open>"minimapLocation": null\<close> is served with the fallback rectangle.\<close>

lemma null_location_falls_back:
  "map_option minimapBounds
     (analyzeWithOpenAI_reply
        (JObj [(''mapName'', JStr ''Haven''), (''minimapLocation'', JNull),
               (''detectedIcons'', JArr []), (''summary'', JStr ''s'')]) None) =
   Some \<lparr>ymin = 0, xmin = 0, ymax = 200, xmax = 200\<rparr>"
  by (simp add: analyzeWithOpenAI_reply_def asRawAnalysisResponse_def
        analyzeWithOpenAI_post_def)

subsection \<open>The selector's invariant\<close>

lemma confirmable_nondegenerate:
  "confirmable b \<Longrightarrow> xmin b < xmax b \<and> ymin b < ymax b"
  by (auto simp add: confirmable_def defaultSelection_def)

lemma selection_ok_step: "selection_ok s \<Longrightarrow> selection_ok (handleEvent s e)"
  by (cases e)
     (auto simp add: selection_ok_def suggestDefault_def handleMouseDown_def handleMouseMove_def
        handleMouseUp_def confirmable_def Let_def split: option.splits bool.splits)

lemma selection_ok_foldl: "selection_ok s \<Longrightarrow> selection_ok (foldl handleEvent s events)"
  by (induction events arbitrary: s) (simp_all add: selection_ok_step)

lemma selection_ok_run: "selection_ok (runSelector events)"
  unfolding runSelector_def
  by (rule selection_ok_foldl) (simp add: selection_ok_def initialState_def)

text \<open>A drag 20 units wide is dropped, and the Confirm button then does nothing.\<close>

lemma small_drag_rejected:
  "confirmClick (runSelector
      [Mounted, MouseDown \<lparr>MousePos.x = 100, MousePos.y = 100\<rparr>,
       MouseMove \<lparr>MousePos.x = 120, MousePos.y = 400\<rparr>, MouseUp]) = None"
  by (simp add: confirmClick_def runSelector_def initialState_def suggestDefault_def
        handleMouseDown_def handleMouseMove_def handleMouseUp_def)

section \<open>Which detections are kept\<close>

text \<open>
  C1. A detection is kept exactly when the center of its bounding box,
  \<open>cx = (xmin + xmax) / 2\<close> and \<open>cy = (ymin + ymax) / 2\<close>, satisfies
  \<open>mapBox.xmin \<le> cx \<le> mapBox.xmax\<close> and \<open>mapBox.ymin \<le> cy \<le> mapBox.ymax\<close>, the
  edges included. In both services every detection contributes one position when its
  center is within the rectangle resolved from the manual bounds and the reply, and
  nothing otherwise; that rectangle is the one returned. The result is always a value,
  never an error.
\<close>

theorem center_inclusion:
  "(iconToPlayer mapBox mapWidth mapHeight icon \<noteq> None) =
     center_within mapBox
       ((xmin (boundingBox icon) + xmax (boundingBox icon)) / 2)
       ((ymin (boundingBox icon) + ymax (boundingBox icon)) / 2) \<and>
   players (analyzeValorantScreenshot_post rawData manualBounds) =
     concat (map (\<lambda>d.
        if center_within (resolveBounds manualBounds (minimapLocation rawData))
             ((xmin (boundingBox d) + xmax (boundingBox d)) / 2)
             ((ymin (boundingBox d) + ymax (boundingBox d)) / 2)
        then [placeIcon (resolveBounds manualBounds (minimapLocation rawData)) d]
        else []) (detectedIcons rawData)) \<and>
   players (analyzeWithOpenAI_post rawData manualBounds) =
     concat (map (\<lambda>d.
        if center_within (resolveBounds manualBounds (minimapLocation rawData))
             ((xmin (boundingBox d) + xmax (boundingBox d)) / 2)
             ((ymin (boundingBox d) + ymax (boundingBox d)) / 2)
        then [placeIcon (resolveBounds manualBounds (minimapLocation rawData)) d]
        else []) (detectedIcons rawData)) \<and>
   minimapBounds (analyzeValorantScreenshot_post rawData manualBounds) =
     resolveBounds manualBounds (minimapLocation rawData) \<and>
   minimapBounds (analyzeWithOpenAI_post rawData manualBounds) =
     resolveBounds manualBounds (minimapLocation rawData)"
  unfolding openai_eq_gemini gemini_bounds gemini_players iconToPlayer_None_iff
    normalizeIcons_def map_filter_concat isInside_center_within
  by simp

text \<open>
  C5. The players of the result are the kept detections in the order of the reply:
  one position for each detection that passes the inclusion test of the rectangle
  resolved from the manual bounds and the reply, none for the others.
\<close>

theorem detection_order_kept:
  "players (analyzeValorantScreenshot_post rawData manualBounds) =
     map (placeIcon (resolveBounds manualBounds (minimapLocation rawData)))
       (filter (isInside (resolveBounds manualBounds (minimapLocation rawData)))
          (detectedIcons rawData)) \<and>
   length (players (analyzeValorantScreenshot_post rawData manualBounds)) =
     length (filter (isInside (resolveBounds manualBounds (minimapLocation rawData)))
          (detectedIcons rawData)) \<and>
   players (analyzeWithOpenAI_post rawData manualBounds) =
     map (placeIcon (resolveBounds manualBounds (minimapLocation rawData)))
       (filter (isInside (resolveBounds manualBounds (minimapLocation rawData)))
          (detectedIcons rawData)) \<and>
   length (players (analyzeWithOpenAI_post rawData manualBounds)) =
     length (filter (isInside (resolveBounds manualBounds (minimapLocation rawData)))
          (detectedIcons rawData))"
  by (simp add: openai_eq_gemini gemini_post_unfold normalizeIcons_def)

section \<open>Where kept detections are placed\<close>

text \<open>
  C9. For a rectangle with \<open>xmax > xmin\<close> and \<open>ymax > ymin\<close> and a detection whose center
  passes the inclusion test, the ratios \<open>(cx - xmin) / (xmax - xmin) * 100\<close> and
  \<open>(cy - ymin) / (ymax - ymin) * 100\<close> are finite and already between 0 and 100 in exact
  arithmetic, so the clamp returns them unchanged and they are the emitted \<open>x\<close> and
  \<open>y\<close>.
\<close>

theorem clamp_identity_on_kept:
  assumes "xmin mapBox < xmax mapBox" and "ymin mapBox < ymax mapBox"
    and "isInside mapBox icon"
  shows "relX mapBox (xmax mapBox - xmin mapBox) icon =
           Num ((iconCenterX icon - xmin mapBox) / (xmax mapBox - xmin mapBox) * 100) \<and>
         relY mapBox (ymax mapBox - ymin mapBox) icon =
           Num ((iconCenterY icon - ymin mapBox) / (ymax mapBox - ymin mapBox) * 100) \<and>
         0 \<le> (iconCenterX icon - xmin mapBox) / (xmax mapBox - xmin mapBox) * 100 \<and>
         (iconCenterX icon - xmin mapBox) / (xmax mapBox - xmin mapBox) * 100 \<le> 100 \<and>
         0 \<le> (iconCenterY icon - ymin mapBox) / (ymax mapBox - ymin mapBox) * 100 \<and>
         (iconCenterY icon - ymin mapBox) / (ymax mapBox - ymin mapBox) * 100 \<le> 100 \<and>
         clamp (relX mapBox (xmax mapBox - xmin mapBox) icon) =
           relX mapBox (xmax mapBox - xmin mapBox) icon \<and>
         clamp (relY mapBox (ymax mapBox - ymin mapBox) icon) =
           relY mapBox (ymax mapBox - ymin mapBox) icon \<and>
         iconToPlayer mapBox (xmax mapBox - xmin mapBox) (ymax mapBox - ymin mapBox) icon =
           Some \<lparr>PlayerPosition.team = RawAgentDetection.team icon,
                 agentGuess = RawAgentDetection.agentGuess icon,
                 x = relX mapBox (xmax mapBox - xmin mapBox) icon,
                 y = relY mapBox (ymax mapBox - ymin mapBox) icon\<rparr>"
proof -
  let ?w = "xmax mapBox - xmin mapBox" and ?h = "ymax mapBox - ymin mapBox"
  let ?a = "iconCenterX icon - xmin mapBox" and ?b = "iconCenterY icon - ymin mapBox"
  from assms(3) have a: "0 \<le> ?a" "?a \<le> ?w" and b: "0 \<le> ?b" "?b \<le> ?h"
    by (simp_all add: isInside_def)
  from assms(1) have w: "0 < ?w" by simp
  from assms(2) have h: "0 < ?h" by simp
  have rx: "0 \<le> ?a / ?w * 100 \<and> ?a / ?w * 100 \<le> 100"
    by (rule ratio_in_range [OF w a])
  have ry: "0 \<le> ?b / ?h * 100 \<and> ?b / ?h * 100 \<le> 100"
    by (rule ratio_in_range [OF h b])
  show ?thesis
    using rx ry assms(3)
      relX_nondegenerate [OF assms(1), of icon] relY_nondegenerate [OF assms(2), of icon]
    by (simp add: clamp_Num iconToPlayer_def)
qed

theorem clamp_identity_on_kept_witness:
  "isInside \<lparr>ymin = 0, xmin = 0, ymax = 200, xmax = 200\<rparr>
     \<lparr>RawAgentDetection.team = ''Red'', agentGuess = None,
      boundingBox = \<lparr>ymin = 50, xmin = 30, ymax = 70, xmax = 50\<rparr>\<rparr> \<and>
   iconToPlayer \<lparr>ymin = 0, xmin = 0, ymax = 200, xmax = 200\<rparr> 200 200
     \<lparr>RawAgentDetection.team = ''Red'', agentGuess = None,
      boundingBox = \<lparr>ymin = 50, xmin = 30, ymax = 70, xmax = 50\<rparr>\<rparr> =
     Some \<lparr>PlayerPosition.team = ''Red'', agentGuess = None, x = Num 20, y = Num 30\<rparr> \<and>
   clamp (Num 20) = Num 20 \<and> clamp (Num 30) = Num 30"
proof -
  let ?box = "\<lparr>ymin = 0, xmin = 0, ymax = 200, xmax = 200 :: rat\<rparr>"
  let ?icon = "\<lparr>RawAgentDetection.team = ''Red'', agentGuess = None,
      boundingBox = \<lparr>ymin = 50, xmin = 30, ymax = 70, xmax = 50\<rparr>\<rparr>"
  have w: "xmin ?box < xmax ?box" by simp
  have h: "ymin ?box < ymax ?box" by simp
  have i: "isInside ?box ?icon"
    by (simp add: isInside_def iconCenterX_def iconCenterY_def)
  from clamp_identity_on_kept [OF w h i] i show ?thesis
    by (simp add: iconCenterX_def iconCenterY_def clamp_def)
qed

text \<open>
  C2. A rectangle of zero width breaks the range of the emitted percentages. The reply
  \<open>zeroWidthReply\<close> reports the minimap at \<open>xmin = xmax = 100\<close>; its icon is centred
  on that line, so it is kept, and \<open>relX\<close> is \<open>0 / 0 * 100\<close>, which is \<open>NaN\<close>.
  \<open>Math.min\<close> and \<open>Math.max\<close> hand \<open>NaN\<close> on, and both services emit \<open>x = NaN\<close>,
  which is not a percentage between 0 and 100.
\<close>

theorem zero_width_gives_NaN:
  "players (analyzeValorantScreenshot_post zeroWidthReply None) =
     [\<lparr>PlayerPosition.team = ''Red'', agentGuess = None, x = NaN, y = Num 25\<rparr>] \<and>
   players (analyzeWithOpenAI_post zeroWidthReply None) =
     [\<lparr>PlayerPosition.team = ''Red'', agentGuess = None, x = NaN, y = Num 25\<rparr>] \<and>
   \<not> in_percent_range
        (PlayerPosition.x (hd (players (analyzeValorantScreenshot_post zeroWidthReply None)))) \<and>
   \<not> in_percent_range
        (PlayerPosition.x (hd (players (analyzeWithOpenAI_post zeroWidthReply None))))"
  by (simp add: analyzeWithOpenAI_post_def zeroWidthReply_def js_div_def
        openai_eq_gemini [symmetric])

section \<open>Bounds resolution\<close>

text \<open>
  C3. When the user supplied manual bounds, both services return them as
  \<open>minimapBounds\<close> and filter and scale the detections with them; the model's
  \<open>minimapLocation\<close> plays no part, whether present or not.
\<close>

theorem manual_bounds_win:
  "minimapBounds (analyzeValorantScreenshot_post rawData (Some manual)) = manual \<and>
   players (analyzeValorantScreenshot_post rawData (Some manual)) =
     normalizeIcons manual (detectedIcons rawData) \<and>
   minimapBounds (analyzeWithOpenAI_post rawData (Some manual)) = manual \<and>
   players (analyzeWithOpenAI_post rawData (Some manual)) =
     normalizeIcons manual (detectedIcons rawData) \<and>
   analyzeValorantScreenshot_post (rawData\<lparr>minimapLocation := loc\<rparr>) (Some manual) =
     analyzeValorantScreenshot_post rawData (Some manual) \<and>
   analyzeWithOpenAI_post (rawData\<lparr>minimapLocation := loc\<rparr>) (Some manual) =
     analyzeWithOpenAI_post rawData (Some manual)"
  by (simp add: openai_eq_gemini gemini_post_unfold resolveBounds_def)

text \<open>
  C4. With no manual bounds and no \<open>minimapLocation\<close> in the reply, both services
  resolve the rectangle to \<open>{xmin: 0, ymin: 0, xmax: 200, ymax: 200}\<close>, return it as
  \<open>minimapBounds\<close> and filter and scale with it.
\<close>

theorem fallback_rectangle:
  assumes "minimapLocation rawData = None"
  shows "minimapBounds (analyzeValorantScreenshot_post rawData None) =
           \<lparr>ymin = 0, xmin = 0, ymax = 200, xmax = 200\<rparr> \<and>
         players (analyzeValorantScreenshot_post rawData None) =
           normalizeIcons \<lparr>ymin = 0, xmin = 0, ymax = 200, xmax = 200\<rparr> (detectedIcons rawData) \<and>
         minimapBounds (analyzeWithOpenAI_post rawData None) =
           \<lparr>ymin = 0, xmin = 0, ymax = 200, xmax = 200\<rparr> \<and>
         players (analyzeWithOpenAI_post rawData None) =
           normalizeIcons \<lparr>ymin = 0, xmin = 0, ymax = 200, xmax = 200\<rparr> (detectedIcons rawData)"
  using assms by (simp add: openai_eq_gemini gemini_post_unfold resolveBounds_def fallbackBox_def)

theorem fallback_rectangle_witness:
  "minimapLocation havenReplyNoLocation = None \<and>
   minimapBounds (analyzeValorantScreenshot_post havenReplyNoLocation None) =
     \<lparr>ymin = 0, xmin = 0, ymax = 200, xmax = 200\<rparr> \<and>
   minimapBounds (analyzeWithOpenAI_post havenReplyNoLocation None) =
     \<lparr>ymin = 0, xmin = 0, ymax = 200, xmax = 200\<rparr> \<and>
   players (analyzeWithOpenAI_post havenReplyNoLocation None) =
     [\<lparr>PlayerPosition.team = ''Red'', agentGuess = None, x = Num 30, y = Num 30\<rparr>]"
proof -
  have n: "minimapLocation havenReplyNoLocation = None"
    by (simp add: havenReplyNoLocation_def)
  have d: "detectedIcons havenReplyNoLocation = detectedIcons havenReply"
    by (simp add: havenReplyNoLocation_def)
  from fallback_rectangle [OF n] n show ?thesis
    by (simp add: d havenReply_def normalizeIcons_def placeIcon_def isInside_def
          iconCenterX_def iconCenterY_def relX_def relY_def clamp_def js_div_def)
qed

section \<open>The two services agree\<close>

text \<open>
  C6, as it holds. On the same parsed reply and the same optional manual bounds, the
  post-processing of the OpenAI service and that of the Gemini service that takes manual
  bounds return equal results: the same resolved bounds, the same kept detections, the
  same percentages.
\<close>

theorem adapters_agree:
  "analyzeWithOpenAI_post rawData manualBounds =
   analyzeValorantScreenshot_post rawData manualBounds"
  by (rule openai_eq_gemini)

text \<open>
  C6, as stated, fails for the schema-driven Gemini service. On the reply
  \<open>bothShapesReply\<close> and no manual bounds it returns the model's own position,
  \<open>x = 150\<close>, neither filtered nor clamped, while the OpenAI service computes
  \<open>x = 30\<close> from the icon's bounding box.
\<close>

theorem schema_driven_gemini_differs:
  "analyzeValorantScreenshot_direct bothShapesReply =
     Some \<lparr>AnalysisResult.mapName = ''Haven'',
           minimapBounds = \<lparr>ymin = 0, xmin = 0, ymax = 200, xmax = 200\<rparr>,
           players = [\<lparr>PlayerPosition.team = ''Red'', agentGuess = None, x = Num 150, y = Num 30\<rparr>],
           summary = ''s''\<rparr> \<and>
   analyzeWithOpenAI_reply bothShapesReply None =
     Some \<lparr>AnalysisResult.mapName = ''Haven'',
           minimapBounds = \<lparr>ymin = 0, xmin = 0, ymax = 200, xmax = 200\<rparr>,
           players = [\<lparr>PlayerPosition.team = ''Red'', agentGuess = None, x = Num 30, y = Num 30\<rparr>],
           summary = ''s''\<rparr> \<and>
   analyzeValorantScreenshot_direct bothShapesReply \<noteq> analyzeWithOpenAI_reply bothShapesReply None"
  by (simp add: bothShapes_direct analyzeWithOpenAI_reply_def bothShapes_raw
        analyzeWithOpenAI_post_def js_div_def)

section \<open>Determinism\<close>



section \<open>Only the geometry is computed\<close>

text \<open>
  C10. The result's \<open>mapName\<close> and \<open>summary\<close> are those of the reply, and the
  positions carry the \<open>team\<close> and the \<open>agentGuess\<close> (absent when absent) of the kept
  detections, in order; only \<open>x\<close> and \<open>y\<close> are computed.
\<close>

theorem only_geometry_changes:
  "AnalysisResult.mapName (analyzeValorantScreenshot_post rawData manualBounds) =
     RawAnalysisResponse.mapName rawData \<and>
   AnalysisResult.summary (analyzeValorantScreenshot_post rawData manualBounds) =
     RawAnalysisResponse.summary rawData \<and>
   map PlayerPosition.team (players (analyzeValorantScreenshot_post rawData manualBounds)) =
     map RawAgentDetection.team
       (filter (isInside (minimapBounds (analyzeValorantScreenshot_post rawData manualBounds)))
          (detectedIcons rawData)) \<and>
   map PlayerPosition.agentGuess (players (analyzeValorantScreenshot_post rawData manualBounds)) =
     map RawAgentDetection.agentGuess
       (filter (isInside (minimapBounds (analyzeValorantScreenshot_post rawData manualBounds)))
          (detectedIcons rawData)) \<and>
   AnalysisResult.mapName (analyzeWithOpenAI_post rawData manualBounds) =
     RawAnalysisResponse.mapName rawData \<and>
   AnalysisResult.summary (analyzeWithOpenAI_post rawData manualBounds) =
     RawAnalysisResponse.summary rawData \<and>
   map PlayerPosition.team (players (analyzeWithOpenAI_post rawData manualBounds)) =
     map RawAgentDetection.team
       (filter (isInside (minimapBounds (analyzeWithOpenAI_post rawData manualBounds)))
          (detectedIcons rawData)) \<and>
   map PlayerPosition.agentGuess (players (analyzeWithOpenAI_post rawData manualBounds)) =
     map RawAgentDetection.agentGuess
       (filter (isInside (minimapBounds (analyzeWithOpenAI_post rawData manualBounds)))
          (detectedIcons rawData))"
  by (simp add: openai_eq_gemini gemini_post_unfold normalizeIcons_def comp_def
        placeIcon_team placeIcon_agentGuess)

section \<open>What the region selector confirms\<close>

text \<open>
  C8. Whatever the sequence of mouse events, a rectangle that the Confirm button hands
  to \<open>onConfirm\<close> has \<open>xmax > xmin\<close> and \<open>ymax > ymin\<close>: it is the suggested rectangle
  \<open>{0, 0, 250, 250}\<close> or a drag more than 20 units wide and more than 20 units high.
\<close>

theorem confirmed_bounds_nondegenerate:
  assumes "confirmClick (runSelector events) = Some b"
  shows "xmax b > xmin b \<and> ymax b > ymin b \<and>
         (b = \<lparr>ymin = 0, xmin = 0, ymax = 250, xmax = 250\<rparr> \<or>
          (xmax b - xmin b > 20 \<and> ymax b - ymin b > 20))"
proof -
  from assms have "selection (runSelector events) = Some b"
    by (simp add: confirmClick_def)
  with selection_ok_run [of events] have c: "confirmable b"
    by (simp add: selection_ok_def)
  from confirmable_nondegenerate [OF c] c show ?thesis
    by (simp add: confirmable_def defaultSelection_def)
qed

theorem confirmed_bounds_nondegenerate_witness:
  "confirmClick (runSelector
      [Mounted, MouseDown \<lparr>MousePos.x = 400, MousePos.y = 350\<rparr>,
       MouseMove \<lparr>MousePos.x = 100, MousePos.y = 100\<rparr>, MouseUp]) =
     Some \<lparr>ymin = 100, xmin = 100, ymax = 350, xmax = 400\<rparr> \<and>
   xmax \<lparr>ymin = 100, xmin = 100, ymax = 350, xmax = 400\<rparr> >
     xmin \<lparr>ymin = 100, xmin = (100::rat), ymax = 350, xmax = 400\<rparr> \<and>
   ymax \<lparr>ymin = 100, xmin = 100, ymax = 350, xmax = 400\<rparr> >
     ymin \<lparr>ymin = 100, xmin = (100::rat), ymax = 350, xmax = 400\<rparr>"
proof -
  have run: "confirmClick (runSelector
      [Mounted, MouseDown \<lparr>MousePos.x = 400, MousePos.y = 350\<rparr>,
       MouseMove \<lparr>MousePos.x = 100, MousePos.y = 100\<rparr>, MouseUp]) =
     Some \<lparr>ymin = 100, xmin = 100, ymax = 350, xmax = 400\<rparr>"
    by (simp add: confirmClick_def runSelector_def initialState_def suggestDefault_def
          handleMouseDown_def handleMouseMove_def handleMouseUp_def)
  from confirmed_bounds_nondegenerate [OF run] run show ?thesis by simp
qed

end
